theory Spec2Isabelle
  imports Main "HOL-Library.Word"
begin

unbundle bit_operations_syntax

section \<open>JavaScript strings\<close>

text \<open>
  A JavaScript string is a sequence of UTF-16 code units. \<open>length\<close> and
  \<open>slice\<close> count code units; \<open>Buffer.byteLength\<close> counts the bytes of the
  UTF-8 encoding. String literals of the source are written \<open>ascii ''...''\<close>.
\<close>

type_synonym jsstring = "16 word list"

definition ascii :: "string \<Rightarrow> jsstring" where
  "ascii s = map of_char s"

definition isHighSurrogate :: "16 word \<Rightarrow> bool" where
  "isHighSurrogate c = (0xD800 \<le> c \<and> c \<le> 0xDBFF)"

definition isLowSurrogate :: "16 word \<Rightarrow> bool" where
  "isLowSurrogate c = (0xDC00 \<le> c \<and> c \<le> 0xDFFF)"

text \<open>
  \<open>Buffer.byteLength(s)\<close> (encoding utf8): one byte for a code unit below
  U+0080, two below U+0800, four for a surrogate pair, three for every other
  code unit (an unpaired surrogate is encoded as U+FFFD).
\<close>

definition utf8_bytes :: "16 word \<Rightarrow> nat" where
  "utf8_bytes c = (if c < 0x80 then 1 else if c < 0x800 then 2 else 3)"

fun Buffer_byteLength :: "jsstring \<Rightarrow> nat" where
  "Buffer_byteLength [] = 0"
| "Buffer_byteLength [c] = utf8_bytes c"
| "Buffer_byteLength (c # d # rest) =
     (if isHighSurrogate c \<and> isLowSurrogate d then 4 + Buffer_byteLength rest
      else utf8_bytes c + Buffer_byteLength (d # rest))"

text \<open>\<open>s.slice(start, end)\<close> for indices \<open>0 \<le> start\<close>, \<open>0 \<le> end\<close>: code units
  \<open>start\<close> up to, not including, \<open>end\<close>; an \<open>end\<close> beyond the string stops at
  the string's end.\<close>

definition String_slice :: "jsstring \<Rightarrow> nat \<Rightarrow> nat \<Rightarrow> jsstring" where
  "String_slice s start end = drop start (take end s)"

text \<open>\<open>xs.join(sep)\<close> on an array of strings.\<close>

fun Array_join :: "jsstring \<Rightarrow> jsstring list \<Rightarrow> jsstring" where
  "Array_join sep [] = []"
| "Array_join sep [x] = x"
| "Array_join sep (x # y # ys) = x @ sep @ Array_join sep (y # ys)"

text \<open>Decimal rendering of a non-negative integer number, as \<open>toString\<close> and
  string concatenation produce it.\<close>

definition digit :: "nat \<Rightarrow> 16 word" where
  "digit d = 0x30 + of_nat d"

fun toString_nat :: "nat \<Rightarrow> jsstring" where
  "toString_nat n =
     (if n < 10 then [digit n] else toString_nat (n div 10) @ [digit (n mod 10)])"

declare toString_nat.simps [simp del]

definition toString_int :: "int \<Rightarrow> jsstring" where
  "toString_int i =
     (if i < 0 then ascii ''-'' @ toString_nat (nat (- i)) else toString_nat (nat i))"

section \<open>JavaScript values and errors\<close>

text \<open>
  The values a caller passes to \<open>log\<close>. \<open>Num\<close> holds an integer in the range
  from \<open>-2^53\<close> to \<open>2^53 - 1\<close>, read with \<open>sint\<close>: each of them is a number
  of JavaScript, and \<open>JSON.stringify\<close> writes it in decimal digits. An object
  graph is written as the tree that a depth-first traversal sees: \<open>Circular\<close>
  stands for a reference back to an object that encloses the position, so
  \<open>var o = {}; o.self = o\<close> is \<open>Obj [(ascii ''self'', Circular)]\<close>.
\<close>

datatype jsval =
    Null
  | Bool bool
  | Num "54 word"
  | Str jsstring
  | Arr "jsval list"
  | Obj "(jsstring \<times> jsval) list"
  | Circular

datatype error =
    Error jsstring
  | TypeError jsstring
  | SyntaxError jsstring

text \<open>\<open>'' + ex\<close> for an error object: name, then the message when there is one.\<close>

definition named_error :: "string \<Rightarrow> jsstring \<Rightarrow> jsstring" where
  "named_error name m = (if m = [] then ascii name else ascii name @ ascii '': '' @ m)"

fun error_toString :: "error \<Rightarrow> jsstring" where
  "error_toString (Error m) = named_error ''Error'' m"
| "error_toString (TypeError m) = named_error ''TypeError'' m"
| "error_toString (SyntaxError m) = named_error ''SyntaxError'' m"

fun typeof :: "jsval \<Rightarrow> string" where
  "typeof Null = ''object''"
| "typeof (Bool b) = ''boolean''"
| "typeof (Num n) = ''number''"
| "typeof (Str s) = ''string''"
| "typeof (Arr xs) = ''object''"
| "typeof (Obj ps) = ''object''"
| "typeof Circular = ''object''"

fun instanceof_Object :: "jsval \<Rightarrow> bool" where
  "instanceof_Object (Arr xs) = True"
| "instanceof_Object (Obj ps) = True"
| "instanceof_Object Circular = True"
| "instanceof_Object v = False"

fun Array_isArray :: "jsval \<Rightarrow> bool" where
  "Array_isArray (Arr xs) = True"
| "Array_isArray v = False"

fun elements :: "jsval \<Rightarrow> jsval list" where
  "elements (Arr xs) = xs"
| "elements v = []"

section \<open>JSON.stringify and json-stringify-safe\<close>

definition hexDigit :: "16 word \<Rightarrow> 16 word" where
  "hexDigit n = (if n < 10 then 0x30 + n else 0x61 + (n - 10))"

definition unicodeEscape :: "16 word \<Rightarrow> jsstring" where
  "unicodeEscape c =
     ascii [CHR 0x5C, CHR ''u''] @
     map hexDigit [drop_bit 12 c AND 0xF, drop_bit 8 c AND 0xF, drop_bit 4 c AND 0xF, c AND 0xF]"

text \<open>The escape of one code unit that is not the first half of a surrogate pair.\<close>

definition escapeChar :: "16 word \<Rightarrow> jsstring" where
  "escapeChar c =
     (if c = 0x08 then ascii [CHR 0x5C, CHR ''b'']
      else if c = 0x09 then ascii [CHR 0x5C, CHR ''t'']
      else if c = 0x0A then ascii [CHR 0x5C, CHR ''n'']
      else if c = 0x0C then ascii [CHR 0x5C, CHR ''f'']
      else if c = 0x0D then ascii [CHR 0x5C, CHR ''r'']
      else if c = 0x22 then ascii [CHR 0x5C, CHR 0x22]
      else if c = 0x5C then ascii [CHR 0x5C, CHR 0x5C]
      else if c < 0x20 \<or> isHighSurrogate c \<or> isLowSurrogate c then unicodeEscape c
      else [c])"

fun quoteChars :: "jsstring \<Rightarrow> jsstring" where
  "quoteChars [] = []"
| "quoteChars [c] = escapeChar c"
| "quoteChars (c # d # rest) =
     (if isHighSurrogate c \<and> isLowSurrogate d then c # d # quoteChars rest
      else escapeChar c @ quoteChars (d # rest))"

definition quote :: "jsstring \<Rightarrow> jsstring" where
  "quote s = ascii [CHR 0x22] @ quoteChars s @ ascii [CHR 0x22]"

text \<open>
  \<open>JSON.stringify(v)\<close>: raises a TypeError when the traversal meets an object
  that encloses the current position. The message of the TypeError is the
  first line of the text that V8 gives it; the lines that follow there, which
  name the path of the cycle, are left out.
\<close>

fun JSON_stringify :: "jsval \<Rightarrow> error + jsstring"
and stringify_elems :: "jsval list \<Rightarrow> error + jsstring list"
and stringify_props :: "(jsstring \<times> jsval) list \<Rightarrow> error + jsstring list"
where
  "JSON_stringify Null = Inr (ascii ''null'')"
| "JSON_stringify (Bool b) = Inr (if b then ascii ''true'' else ascii ''false'')"
| "JSON_stringify (Num n) = Inr (toString_int (sint n))"
| "JSON_stringify (Str s) = Inr (quote s)"
| "JSON_stringify (Arr xs) =
     (case stringify_elems xs of
        Inl ex \<Rightarrow> Inl ex
      | Inr ss \<Rightarrow> Inr (ascii ''['' @ Array_join (ascii '','') ss @ ascii '']''))"
| "JSON_stringify (Obj ps) =
     (case stringify_props ps of
        Inl ex \<Rightarrow> Inl ex
      | Inr ss \<Rightarrow> Inr (ascii ''{'' @ Array_join (ascii '','') ss @ ascii ''}''))"
| "JSON_stringify Circular = Inl (TypeError (ascii ''Converting circular structure to JSON''))"
| "stringify_elems [] = Inr []"
| "stringify_elems (x # xs) =
     (case JSON_stringify x of
        Inl ex \<Rightarrow> Inl ex
      | Inr s \<Rightarrow> (case stringify_elems xs of Inl ex \<Rightarrow> Inl ex | Inr ss \<Rightarrow> Inr (s # ss)))"
| "stringify_props [] = Inr []"
| "stringify_props ((k, v) # ps) =
     (case JSON_stringify v of
        Inl ex \<Rightarrow> Inl ex
      | Inr s \<Rightarrow>
          (case stringify_props ps of
             Inl ex \<Rightarrow> Inl ex
           | Inr ss \<Rightarrow> Inr ((quote k @ ascii '':'' @ s) # ss)))"

text \<open>
  \<open>stringifySafe(v, null, null, noop)\<close> of the package json-stringify-safe: a
  reference back to an enclosing object is replaced by what the cycle replacer
  returns. The replacer here is \<open>noop\<close>, which returns \<open>undefined\<close>, so the
  property is left out of an object and written \<open>null\<close> in an array.
\<close>

fun stringifySafe :: "jsval \<Rightarrow> jsstring"
and safe_elems :: "jsval list \<Rightarrow> jsstring list"
and safe_props :: "(jsstring \<times> jsval) list \<Rightarrow> jsstring list"
where
  "stringifySafe Null = ascii ''null''"
| "stringifySafe (Bool b) = (if b then ascii ''true'' else ascii ''false'')"
| "stringifySafe (Num n) = toString_int (sint n)"
| "stringifySafe (Str s) = quote s"
| "stringifySafe (Arr xs) = ascii ''['' @ Array_join (ascii '','') (safe_elems xs) @ ascii '']''"
| "stringifySafe (Obj ps) = ascii ''{'' @ Array_join (ascii '','') (safe_props ps) @ ascii ''}''"
| "stringifySafe Circular = ascii ''null''"
| "safe_elems [] = []"
| "safe_elems (x # xs) = stringifySafe x # safe_elems xs"
| "safe_props [] = []"
| "safe_props ((k, v) # ps) =
     (if v = Circular then safe_props ps
      else (quote k @ ascii '':'' @ stringifySafe v) # safe_props ps)"

section \<open>lib/loggly/client.js\<close>

subsection \<open>Module level\<close>

definition EVENT_SIZE :: nat where
  "EVENT_SIZE = 1000 * 1000"

text \<open>\<open>stringify(msg)\<close>: \<open>JSON.stringify\<close>, and \<open>stringifySafe\<close> in the
  \<open>catch\<close> branch.\<close>

definition stringify :: "jsval \<Rightarrow> jsstring" where
  "stringify msg =
     (case JSON_stringify msg of
        Inr payload \<Rightarrow> payload
      | Inl ex \<Rightarrow> stringifySafe msg)"

record truncatedMessageObject =
  message :: jsstring
  isMessageTruncated :: bool

definition truncateLargeMessage :: "jsstring \<Rightarrow> truncatedMessageObject" where
  "truncateLargeMessage msg =
     (let maximumBytesAllowedToLoggly = EVENT_SIZE;
          bytesLengthOfLogMessage = Buffer_byteLength msg
      in if bytesLengthOfLogMessage > maximumBytesAllowedToLoggly
         then \<lparr>message = String_slice msg 0 maximumBytesAllowedToLoggly,
               isMessageTruncated = True\<rparr>
         else \<lparr>message = msg, isMessageTruncated = False\<rparr>)"

subsection \<open>Tags\<close>

text \<open>
  A tags argument or option: absent, one string, or an array of strings.
  The character classes of \<open>isSolid = /^[\w\d][\w\d-_.]+/\<close>: \<open>\w\<close> is
  \<open>[A-Za-z0-9_]\<close>, \<open>\d\<close> is \<open>[0-9]\<close>, and in \<open>[\w\d-_.]\<close> the hyphen after the
  class escape \<open>\d\<close> is a literal hyphen.
\<close>

datatype tagsArg = NoTags | OneTag jsstring | TagArray "jsstring list"

fun truthy_tags :: "tagsArg \<Rightarrow> bool" where
  "truthy_tags NoTags = False"
| "truthy_tags (OneTag s) = (s \<noteq> [])"
| "truthy_tags (TagArray ts) = True"

definition isDigit :: "16 word \<Rightarrow> bool" where
  "isDigit c = (0x30 \<le> c \<and> c \<le> 0x39)"

definition isWord :: "16 word \<Rightarrow> bool" where
  "isWord c = ((0x41 \<le> c \<and> c \<le> 0x5A) \<or> (0x61 \<le> c \<and> c \<le> 0x7A) \<or> isDigit c \<or> c = 0x5F)"

definition isSolid_first :: "16 word \<Rightarrow> bool" where
  "isSolid_first c = (isWord c \<or> isDigit c)"

definition isSolid_more :: "16 word \<Rightarrow> bool" where
  "isSolid_more c = (isWord c \<or> isDigit c \<or> c = 0x2D \<or> c = 0x5F \<or> c = 0x2E)"

text \<open>
  \<open>isSolid.test(tag)\<close>. The pattern is anchored at the start only: the first
  code unit must be in the first class, the greedy \<open>+\<close> then takes the longest
  run of code units of the second class and needs at least one; what follows
  the run is not looked at.
\<close>

definition isSolid_test :: "jsstring \<Rightarrow> bool" where
  "isSolid_test tag =
     (case tag of
        [] \<Rightarrow> False
      | c # rest \<Rightarrow> isSolid_first c \<and> 1 \<le> length (takeWhile isSolid_more rest))"

text \<open>
  \<open>tagFilter(tags)\<close>: a value that is not an array is put into a one-element
  array, and the array is filtered. The filter keeps a tag that is truthy,
  passes \<open>isSolid.test\<close> and has a \<open>length\<close> of at most 64. An absent value
  gives \<open>[undefined]\<close>, whose element is falsy and is dropped.
\<close>

definition tagFilter_keep :: "jsstring \<Rightarrow> bool" where
  "tagFilter_keep tag = (tag \<noteq> [] \<and> isSolid_test tag \<and> length tag \<le> 64)"

fun tagFilter :: "tagsArg \<Rightarrow> jsstring list" where
  "tagFilter (TagArray ts) = filter tagFilter_keep ts"
| "tagFilter (OneTag t) = filter tagFilter_keep [t]"
| "tagFilter NoTags = []"

subsection \<open>The constructor\<close>

record options =
  opt_subdomain :: "jsstring option"
  opt_token :: "jsstring option"
  opt_host :: "jsstring option"
  opt_json :: bool
  opt_auth :: "(jsstring \<times> jsstring) option"
  opt_proxy :: "jsstring option"
  opt_useTagHeader :: "bool option"
  opt_isBulk :: bool
  opt_bufferOptions :: "(nat \<times> nat) option"
  opt_networkErrorsOnConsole :: bool
  opt_appName :: "jsstring option"
  opt_tags :: tagsArg
  opt_api :: "jsstring option"

record urls =
  url_default :: jsstring
  url_log :: jsstring
  url_bulk :: jsstring
  url_api :: jsstring

record client =
  this_subdomain :: jsstring
  this_token :: jsstring
  this_host :: jsstring
  this_json :: bool
  this_auth :: "(jsstring \<times> jsstring) option"
  this_proxy :: "jsstring option"
  this_userAgent :: jsstring
  this_useTagHeader :: bool
  this_isBulk :: bool
  this_bufferOptions :: "nat \<times> nat"
  this_networkErrorsOnConsole :: bool
  this_appName :: "jsstring option"
  this_tags :: "jsstring list option"
  this_urls :: urls

text \<open>A string option is truthy when it is present and not empty;
  \<open>x || d\<close> is \<open>x\<close> then, and \<open>d\<close> otherwise.\<close>

fun truthy :: "jsstring option \<Rightarrow> bool" where
  "truthy None = False"
| "truthy (Some s) = (s \<noteq> [])"

fun or_else :: "jsstring option \<Rightarrow> jsstring \<Rightarrow> jsstring" where
  "or_else None d = d"
| "or_else (Some s) d = (if s \<noteq> [] then s else d)"

text \<open>
  \<open>new Loggly(options)\<close>. \<open>version\<close> is \<open>loggly.version\<close> of the module
  \<open>require('../loggly')\<close>, which lies outside \<open>client.js\<close>; it is a parameter.
  A falsy \<open>proxy\<close> or \<open>appName\<close> is \<open>None\<close>.
\<close>

definition Loggly :: "jsstring \<Rightarrow> options option \<Rightarrow> error + client" where
  "Loggly version options =
     (case options of
        None \<Rightarrow> Inl (Error (ascii ''options.subdomain and options.token are required.''))
      | Some opts \<Rightarrow>
          if \<not> truthy (opt_subdomain opts) \<or> \<not> truthy (opt_token opts)
          then Inl (Error (ascii ''options.subdomain and options.token are required.''))
          else
            let host = or_else (opt_host opts) (ascii ''logs-01.loggly.com'');
                token = or_else (opt_token opts) [];
                subdomain = or_else (opt_subdomain opts) [];
                url = ascii ''https://'' @ host;
                api = or_else (opt_api opts) (ascii ''apiv2'')
            in Inr \<lparr>this_subdomain = subdomain,
                    this_token = token,
                    this_host = host,
                    this_json = opt_json opts,
                    this_auth = opt_auth opts,
                    this_proxy = (if truthy (opt_proxy opts) then opt_proxy opts else None),
                    this_userAgent = ascii ''node-loggly '' @ version,
                    this_useTagHeader =
                      (case opt_useTagHeader opts of Some b \<Rightarrow> b | None \<Rightarrow> True),
                    this_isBulk = opt_isBulk opts,
                    this_bufferOptions =
                      (case opt_bufferOptions opts of Some b \<Rightarrow> b | None \<Rightarrow> (500, 30 * 1000)),
                    this_networkErrorsOnConsole = opt_networkErrorsOnConsole opts,
                    this_appName = (if truthy (opt_appName opts) then opt_appName opts else None),
                    this_tags =
                      (if truthy_tags (opt_tags opts) then Some (tagFilter (opt_tags opts))
                       else None),
                    this_urls =
                      \<lparr>url_default = url,
                       url_log = Array_join (ascii ''/'') [url, ascii ''inputs'', token],
                       url_bulk = Array_join (ascii ''/'') [url, ascii ''bulk'', token],
                       url_api =
                         ascii ''https://'' @
                         Array_join (ascii ''.'') [subdomain, ascii ''loggly'', ascii ''com''] @
                         ascii ''/'' @ api\<rparr>\<rparr>)"

definition createClient :: "jsstring \<Rightarrow> options option \<Rightarrow> error + client" where
  "createClient version options = Loggly version options"

subsection \<open>log\<close>

record logOptions =
  lo_uri :: jsstring
  lo_method :: jsstring
  lo_body :: jsval
  lo_proxy :: "jsstring option"
  lo_isBulk :: bool
  lo_bufferOptions :: "nat \<times> nat"
  lo_networkErrorsOnConsole :: bool
  lo_headers :: "string \<rightharpoonup> jsstring"

text \<open>
  The local function \<open>serialize\<close> of \<open>log\<close>. \<open>common_serialize\<close> is
  \<open>common.serialize\<close> of the module \<open>require('./common')\<close>, which lies
  outside \<open>client.js\<close>; it is a parameter.
\<close>

definition serialize :: "(jsval \<Rightarrow> jsstring) \<Rightarrow> client \<Rightarrow> jsval \<Rightarrow> jsval" where
  "serialize common_serialize self msg =
     (if instanceof_Object msg
      then (if this_json self then Str (stringify msg) else Str (common_serialize msg))
      else (if this_json self then Str (stringify (Obj [(ascii ''message'', msg)])) else msg))"

text \<open>
  \<open>log(msg, tags, callback)\<close> up to the call of \<open>common.loggly\<close>, block by
  block. Lines 119 to 127: an object is passed through \<open>JSON.stringify\<close>,
  outside any \<open>try\<close>, and its text through \<open>truncateLargeMessage\<close>; a string
  goes through \<open>truncateLargeMessage\<close> directly; \<open>msg\<close> becomes the truncated
  text when the text was truncated and stays what it was otherwise.
\<close>

definition log_truncate :: "jsval \<Rightarrow> error + jsval" where
  "log_truncate msg =
     (if typeof msg = ''object''
      then (case JSON_stringify msg of
              Inl ex \<Rightarrow> Inl ex
            | Inr stringifiedMessage \<Rightarrow>
                let truncatedMessageObject = truncateLargeMessage stringifiedMessage
                in Inr (if isMessageTruncated truncatedMessageObject
                        then Str (message truncatedMessageObject) else msg))
      else if typeof msg = ''string''
      then (case msg of
              Str s \<Rightarrow>
                let truncatedMessageObject = truncateLargeMessage s
                in Inr (if isMessageTruncated truncatedMessageObject
                        then Str (message truncatedMessageObject) else msg)
            | _ \<Rightarrow> Inr msg)
      else Inr msg)"

text \<open>Line 149: \<open>this.isBulk && Array.isArray(msg) ? msg.map(serialize) : serialize(msg)\<close>.\<close>

definition log_body :: "(jsval \<Rightarrow> jsstring) \<Rightarrow> client \<Rightarrow> jsval \<Rightarrow> jsval" where
  "log_body common_serialize self msg =
     (if this_isBulk self \<and> Array_isArray msg
      then Arr (map (serialize common_serialize self) (elements msg))
      else serialize common_serialize self msg)"

text \<open>Lines 151 to 165: the \<open>logOptions\<close> object.\<close>

definition log_logOptions :: "client \<Rightarrow> jsval \<Rightarrow> logOptions" where
  "log_logOptions self msg =
     \<lparr>lo_uri = (if this_isBulk self then url_bulk (this_urls self) else url_log (this_urls self)),
      lo_method = ascii ''POST'',
      lo_body = msg,
      lo_proxy = this_proxy self,
      lo_isBulk = this_isBulk self,
      lo_bufferOptions = this_bufferOptions self,
      lo_networkErrorsOnConsole = this_networkErrorsOnConsole self,
      lo_headers =
        [''host'' \<mapsto> this_host self,
         ''accept'' \<mapsto> ascii ''*/*'',
         ''user-agent'' \<mapsto> this_userAgent self,
         ''content-type'' \<mapsto>
           (if this_json self then ascii ''application/json'' else ascii ''text/plain'')]\<rparr>"

text \<open>Lines 171 to 173: the tags of the call, \<open>None\<close> for \<open>null\<close>. \<open>tags\<close>
  is the argument after the shift of a callback given in its place, which
  sets it to \<open>null\<close>, here \<open>NoTags\<close>.\<close>

definition log_tags :: "client \<Rightarrow> tagsArg \<Rightarrow> jsstring list option" where
  "log_tags self tags =
     (if truthy_tags tags
      then (case this_tags self of
              Some ts \<Rightarrow> Some (ts @ tagFilter tags)
            | None \<Rightarrow> Some (tagFilter tags))
      else this_tags self)"

text \<open>Lines 181 to 189: the tags go into the header or into the URI.\<close>

definition log_attach_tags :: "client \<Rightarrow> jsstring list option \<Rightarrow> logOptions \<Rightarrow> logOptions" where
  "log_attach_tags self tags logOptions =
     (case tags of
        None \<Rightarrow> logOptions
      | Some ts \<Rightarrow>
          if length ts \<noteq> 0
          then (if this_useTagHeader self
                then logOptions
                       \<lparr>lo_headers := (lo_headers logOptions)
                          (''X-LOGGLY-TAG'' \<mapsto> Array_join (ascii '','') ts)\<rparr>
                else logOptions
                       \<lparr>lo_uri := lo_uri logOptions @ ascii ''/tag/'' @
                          Array_join (ascii '','') ts @ ascii ''/''\<rparr>)
          else logOptions)"

text \<open>Lines 191 to 193.\<close>

definition log_attach_appName :: "client \<Rightarrow> logOptions \<Rightarrow> logOptions" where
  "log_attach_appName self logOptions =
     (case this_appName self of
        Some a \<Rightarrow> logOptions\<lparr>lo_headers := (lo_headers logOptions)(''appName'' \<mapsto> a)\<rparr>
      | None \<Rightarrow> logOptions)"

text \<open>The result of \<open>log\<close> is the \<open>logOptions\<close> handed to \<open>common.loggly\<close>,
  or the exception that leaves \<open>log\<close>.\<close>

definition log :: "(jsval \<Rightarrow> jsstring) \<Rightarrow> client \<Rightarrow> jsval \<Rightarrow> tagsArg \<Rightarrow> error + logOptions" where
  "log common_serialize self msg tags =
     (case log_truncate msg of
        Inl ex \<Rightarrow> Inl ex
      | Inr msg1 \<Rightarrow>
          Inr (log_attach_appName self
                (log_attach_tags self (log_tags self tags)
                  (log_logOptions self (log_body common_serialize self msg1)))))"

subsection \<open>The continuation that log gives to common.loggly\<close>

record response =
  res_statusCode :: nat
  res_statusMessage :: jsstring

text \<open>
  What the continuation does, in order: an event emitted on the client, a call
  of the caller's callback with \<open>(err, result)\<close>, a line on the console.
\<close>

datatype effect =
    Emit jsstring jsval
  | Callback "error option" "jsval option"
  | ConsoleLog jsstring

text \<open>
  A listener or a callback is given by what a call of it does: \<open>None\<close> when
  it returns, \<open>Some ex\<close> when it throws \<open>ex\<close>. \<open>returns\<close> is one that
  always returns, \<open>throws ex\<close> one that always throws \<open>ex\<close>.
\<close>

definition returns :: "'a \<Rightarrow> 'b \<Rightarrow> error option" where
  "returns x y = None"

definition throws :: "error \<Rightarrow> 'a \<Rightarrow> 'b \<Rightarrow> error option" where
  "throws ex x y = Some ex"

text \<open>
  The \<open>catch\<close> block of lines 207 to 211, entered with \<open>ex\<close> after the effects
  \<open>trace\<close>: the callback, when there is one, is called with the new \<open>Error\<close>;
  what it throws leaves the continuation.
\<close>

definition log_catch ::
  "(error option \<Rightarrow> jsval option \<Rightarrow> error option) option \<Rightarrow> effect list \<Rightarrow> error \<Rightarrow>
     effect list \<times> error option"
where
  "log_catch callback trace ex =
     (case callback of
        None \<Rightarrow> (trace, None)
      | Some cb \<Rightarrow>
          let err = Error (ascii ''Unspecified error from Loggly: '' @ error_toString ex)
          in (trace @ [Callback (Some err) None], cb (Some err) None))"

text \<open>
  The continuation of lines 195 to 212. \<open>JSON_parse\<close> is \<open>JSON.parse\<close>, which
  returns a value or raises; \<open>emit\<close> is \<open>self.emit\<close>, which throws what a
  listener throws; \<open>callback\<close> is \<open>None\<close> when the caller gave none. All
  three are parameters. \<open>JSON.parse\<close>, \<open>self.emit\<close> and the call
  \<open>callback(null, result)\<close> are inside the \<open>try\<close>. The result is the effects
  in order and the exception that leaves the continuation, if any.
\<close>

definition log_continuation ::
  "(jsstring \<Rightarrow> error + jsval) \<Rightarrow> (jsstring \<Rightarrow> jsval \<Rightarrow> error option) \<Rightarrow>
     (error option \<Rightarrow> jsval option \<Rightarrow> error option) option \<Rightarrow> response \<Rightarrow> jsstring option \<Rightarrow>
     effect list \<times> error option"
where
  "log_continuation JSON_parse emit callback res body =
     (if truthy body \<and> toString_nat (res_statusCode res) = ascii ''200''
      then (case JSON_parse (or_else body []) of
              Inl ex \<Rightarrow> log_catch callback [] ex
            | Inr result \<Rightarrow>
                (case emit (ascii ''log'') result of
                   Some ex \<Rightarrow> log_catch callback [Emit (ascii ''log'') result] ex
                 | None \<Rightarrow>
                     (case callback of
                        None \<Rightarrow> ([Emit (ascii ''log'') result], None)
                      | Some cb \<Rightarrow>
                          (case cb None (Some result) of
                             Some ex \<Rightarrow>
                               log_catch callback
                                 [Emit (ascii ''log'') result, Callback None (Some result)] ex
                           | None \<Rightarrow>
                               ([Emit (ascii ''log'') result, Callback None (Some result)],
                                None)))))
      else ([ConsoleLog (ascii ''Error Code- '' @ toString_nat (res_statusCode res) @
                         ascii [CHR '' '', CHR 0x22] @ res_statusMessage res @ ascii [CHR 0x22])],
            None))"

subsection \<open>A call from construction to request\<close>

text \<open>\<open>createClient(options).log(msg, tags)\<close>, and the options
  \<open>{subdomain: 'example', token: 'abc123'}\<close> that the examples start from.\<close>

definition createClient_log ::
  "jsstring \<Rightarrow> (jsval \<Rightarrow> jsstring) \<Rightarrow> options \<Rightarrow> jsval \<Rightarrow> tagsArg \<Rightarrow> error + logOptions"
where
  "createClient_log version common_serialize opts msg tags =
     (case createClient version (Some opts) of
        Inl ex \<Rightarrow> Inl ex
      | Inr self \<Rightarrow> log common_serialize self msg tags)"

definition example_options :: options where
  "example_options =
     \<lparr>opt_subdomain = Some (ascii ''example''),
      opt_token = Some (ascii ''abc123''),
      opt_host = None,
      opt_json = False,
      opt_auth = None,
      opt_proxy = None,
      opt_useTagHeader = None,
      opt_isBulk = False,
      opt_bufferOptions = None,
      opt_networkErrorsOnConsole = False,
      opt_appName = None,
      opt_tags = NoTags,
      opt_api = None\<rparr>"

section \<open>Basic facts about strings\<close>

lemma ascii_Nil: "ascii [] = []"
  by (simp add: ascii_def)

lemma ascii_Cons: "ascii (c # s) = of_char c # ascii s"
  by (simp add: ascii_def)

lemma utf8_bytes_pos: "1 \<le> utf8_bytes c"
  by (simp add: utf8_bytes_def)

lemma length_le_byteLength: "length s \<le> Buffer_byteLength s"
proof (induction s rule: Buffer_byteLength.induct)
  case 1
  show ?case by simp
next
  case (2 c)
  show ?case using utf8_bytes_pos [of c] by simp
next
  case (3 c d rest)
  then show ?case using utf8_bytes_pos [of c] by auto
qed

lemma not_surrogate_low: "c < 0x800 \<Longrightarrow> \<not> isHighSurrogate c"
  by (simp add: isHighSurrogate_def word_le_nat_alt word_less_nat_alt)

lemma byteLength_single_byte:
  "\<forall>c\<in>set s. c < 0x80 \<Longrightarrow> Buffer_byteLength s = length s"
proof (induction s rule: Buffer_byteLength.induct)
  case 1
  show ?case by simp
next
  case (2 c)
  then show ?case by (simp add: utf8_bytes_def)
next
  case (3 c d rest)
  then have "c < 0x80" by simp
  then have "c < 0x800" by (simp add: word_less_nat_alt)
  then have "\<not> isHighSurrogate c" by (rule not_surrogate_low)
  with 3 \<open>c < 0x80\<close> show ?case by (simp add: utf8_bytes_def)
qed

lemma byteLength_two_byte:
  "\<forall>c\<in>set s. \<not> c < 0x80 \<and> c < 0x800 \<Longrightarrow> Buffer_byteLength s = 2 * length s"
proof (induction s rule: Buffer_byteLength.induct)
  case 1
  show ?case by simp
next
  case (2 c)
  then show ?case by (simp add: utf8_bytes_def)
next
  case (3 c d rest)
  then have c: "\<not> c < 0x80" "c < 0x800" by simp_all
  then have "\<not> isHighSurrogate c" by (simp add: not_surrogate_low)
  with 3 c show ?case by (simp add: utf8_bytes_def)
qed

lemma byteLength_e_acute: "Buffer_byteLength (replicate n 0xE9) = 2 * n"
  by (simp add: byteLength_two_byte)

lemma digit_cases:
  assumes "d < 10"
  shows "(digit d = 0x30 \<longleftrightarrow> d = 0) \<and> (digit d = 0x32 \<longleftrightarrow> d = 2)"
proof -
  from assms have "d = 0 \<or> d = 1 \<or> d = 2 \<or> d = 3 \<or> d = 4 \<or> d = 5 \<or> d = 6 \<or> d = 7
      \<or> d = 8 \<or> d = 9"
    by arith
  then show ?thesis by (elim disjE) (simp_all add: digit_def)
qed

lemma toString_nat_not_Nil: "toString_nat n \<noteq> []"
  by (subst toString_nat.simps) simp

lemma toString_nat_200: "toString_nat 200 = ascii ''200''"
  by (simp add: toString_nat.simps [of 200] toString_nat.simps [of 20] toString_nat.simps [of 2]
      digit_def ascii_def)

lemma toString_nat_eq_200:
  assumes "toString_nat n = ascii ''200''"
  shows "n = 200"
proof -
  from assms have n: "toString_nat n = [0x32, 0x30, 0x30]" by (simp add: ascii_def)
  have n10: "\<not> n < 10" using n by (subst (asm) toString_nat.simps) (simp split: if_splits)
  define m where "m = n div 10"
  from n n10 have m: "toString_nat m = [0x32, 0x30]" and d0: "digit (n mod 10) = 0x30"
    unfolding m_def by (subst (asm) toString_nat.simps, simp)+
  have m10: "\<not> m < 10" using m by (subst (asm) toString_nat.simps) (simp split: if_splits)
  define k where "k = m div 10"
  from m m10 have k: "toString_nat k = [0x32]" and d1: "digit (m mod 10) = 0x30"
    unfolding k_def by (subst (asm) toString_nat.simps, simp)+
  have k10: "k < 10"
  proof (rule ccontr)
    assume "\<not> k < 10"
    with k have "toString_nat (k div 10) = []" by (subst (asm) toString_nat.simps) simp
    then show False by (simp add: toString_nat_not_Nil)
  qed
  with k have "digit k = 0x32" by (subst (asm) toString_nat.simps) simp
  with k10 have "k = 2" by (simp add: digit_cases)
  moreover from d1 have "m mod 10 = 0" by (simp add: digit_cases)
  ultimately have "m = 20" using div_mult_mod_eq [of m 10] unfolding k_def by simp
  moreover from d0 have "n mod 10 = 0" by (simp add: digit_cases)
  ultimately show ?thesis using div_mult_mod_eq [of n 10] unfolding m_def by simp
qed

lemma toString_nat_200_iff: "toString_nat n = ascii ''200'' \<longleftrightarrow> n = 200"
  using toString_nat_eq_200 toString_nat_200 by blast

lemma escapeChar_plain:
  assumes "0x20 \<le> c" "c < 0x80" "c \<noteq> 0x22" "c \<noteq> 0x5C"
  shows "escapeChar c = [c]" and "\<not> isHighSurrogate c"
proof -
  from assms have u: "32 \<le> unat c" "unat c < 128"
    by (simp_all add: word_le_nat_alt word_less_nat_alt)
  then show "\<not> isHighSurrogate c"
    by (simp add: isHighSurrogate_def word_le_nat_alt)
  from u have "\<not> isLowSurrogate c" "\<not> c < 0x20"
    by (simp_all add: isLowSurrogate_def word_le_nat_alt word_less_nat_alt)
  moreover from u have "c \<noteq> 0x08" "c \<noteq> 0x09" "c \<noteq> 0x0A" "c \<noteq> 0x0C" "c \<noteq> 0x0D"
    by auto
  ultimately show "escapeChar c = [c]"
    using assms \<open>\<not> isHighSurrogate c\<close> by (simp add: escapeChar_def)
qed

lemma quoteChars_plain:
  "\<forall>c\<in>set s. 0x20 \<le> c \<and> c < 0x80 \<and> c \<noteq> 0x22 \<and> c \<noteq> 0x5C \<Longrightarrow> quoteChars s = s"
proof (induction s rule: quoteChars.induct)
  case 1
  show ?case by simp
next
  case (2 c)
  then show ?case by (simp add: escapeChar_plain)
next
  case (3 c d rest)
  then have "escapeChar c = [c]" "\<not> isHighSurrogate c" by (simp_all add: escapeChar_plain)
  with 3 show ?case by simp
qed

lemma quote_plain:
  "\<forall>c\<in>set s. 0x20 \<le> c \<and> c < 0x80 \<and> c \<noteq> 0x22 \<and> c \<noteq> 0x5C \<Longrightarrow>
     quote s = [0x22] @ s @ [0x22]"
  by (simp add: quote_def quoteChars_plain ascii_def)



section \<open>Truncation\<close>

lemma truncateLargeMessage_message:
  "message (truncateLargeMessage s) = take EVENT_SIZE s"
  using length_le_byteLength [of s]
  by (simp add: truncateLargeMessage_def String_slice_def Let_def)

lemma truncateLargeMessage_flag:
  "isMessageTruncated (truncateLargeMessage s) = (EVENT_SIZE < Buffer_byteLength s)"
  by (simp add: truncateLargeMessage_def Let_def)

lemma log_truncate_Str: "log_truncate (Str s) = Inr (Str (take EVENT_SIZE s))"
  using length_le_byteLength [of s]
  by (simp add: log_truncate_def Let_def truncateLargeMessage_message truncateLargeMessage_flag)

lemma log_truncate_object_within:
  "typeof msg = ''object'' \<Longrightarrow> JSON_stringify msg = Inr t \<Longrightarrow>
     Buffer_byteLength t \<le> EVENT_SIZE \<Longrightarrow> log_truncate msg = Inr msg"
  by (simp add: log_truncate_def Let_def truncateLargeMessage_flag)

lemma log_truncate_object_over:
  "typeof msg = ''object'' \<Longrightarrow> JSON_stringify msg = Inr t \<Longrightarrow>
     EVENT_SIZE < Buffer_byteLength t \<Longrightarrow> log_truncate msg = Inr (Str (take EVENT_SIZE t))"
  by (simp add: log_truncate_def Let_def truncateLargeMessage_flag truncateLargeMessage_message)

text \<open>
  C1. The claim: a message of at most \<open>EVENT_SIZE\<close> bytes is returned
  unmodified and not flagged, and a message of more bytes is returned flagged
  with a byte length of exactly \<open>EVENT_SIZE\<close>. \<open>truncateLargeMessage\<close>
  measures bytes and cuts code units. On the message of 600000 letters
  U+00E9, which is 1200000 bytes long, it returns the whole message, flagged,
  still 1200000 bytes long.
\<close>

theorem truncateLargeMessage_two_byte_letters:
  "truncateLargeMessage (replicate 600000 0xE9) =
     \<lparr>message = replicate 600000 0xE9, isMessageTruncated = True\<rparr>
   \<and> Buffer_byteLength (message (truncateLargeMessage (replicate 600000 0xE9))) = 1200000
   \<and> Buffer_byteLength (message (truncateLargeMessage (replicate 600000 0xE9))) \<noteq> EVENT_SIZE
   \<and> EVENT_SIZE = 1000000"
proof -
  have "truncateLargeMessage (replicate 600000 0xE9) =
      \<lparr>message = replicate 600000 0xE9, isMessageTruncated = True\<rparr>"
    unfolding truncateLargeMessage_def String_slice_def Let_def byteLength_e_acute EVENT_SIZE_def
    by simp
  then show ?thesis
    by (simp add: byteLength_e_acute EVENT_SIZE_def)
qed

section \<open>Tags\<close>

text \<open>
  C3. The claim: \<open>tagFilter\<close> keeps exactly the candidates that are not
  empty, match the pattern over the whole string and have at most 64
  characters, so that \<open>["ok-1", "bad tag!"]\<close> gives \<open>["ok-1"]\<close>. The pattern
  of \<open>isSolid\<close> has no anchor at the end, and \<open>tagFilter\<close> keeps
  \<open>"bad tag!"\<close>, whose first three characters match.
\<close>

theorem tagFilter_keeps_bad_tag:
  "tagFilter (TagArray [ascii ''ok-1'', ascii ''bad tag!'']) =
     [ascii ''ok-1'', ascii ''bad tag!'']"
  by (simp add: ascii_Cons ascii_Nil tagFilter_keep_def isSolid_test_def isSolid_first_def
      isSolid_more_def isWord_def isDigit_def)

section \<open>Serialization\<close>

text \<open>
  C4. The claim: \<open>log\<close> never raises on a structured message, cyclic ones
  included, because serialization falls back to the cycle-safe encoder.
  \<open>stringify\<close> does fall back, but \<open>log\<close> first calls \<open>JSON.stringify\<close>
  outside any \<open>try\<close>: on \<open>var o = {}; o.self = o\<close> the TypeError leaves
  \<open>log\<close>, for every client and every tags argument, while \<open>stringify\<close>
  on the same object returns \<open>{}\<close>.
\<close>

theorem log_raises_on_circular:
  "log common_serialize self (Obj [(ascii ''self'', Circular)]) tags =
     Inl (TypeError (ascii ''Converting circular structure to JSON''))
   \<and> stringify (Obj [(ascii ''self'', Circular)]) = ascii ''{}''"
  by (simp add: log_def log_truncate_def stringify_def ascii_def)

section \<open>The constructor and the stages of log\<close>

lemma Loggly_total:
  "truthy (opt_subdomain opts) \<Longrightarrow> truthy (opt_token opts) \<Longrightarrow>
     \<exists>self. Loggly version (Some opts) = Inr self"
  by (simp add: Loggly_def Let_def)

lemma Loggly_fields:
  assumes "Loggly version (Some opts) = Inr self"
  shows "this_json self = opt_json opts"
    and "this_isBulk self = opt_isBulk opts"
    and "this_useTagHeader self = (case opt_useTagHeader opts of Some b \<Rightarrow> b | None \<Rightarrow> True)"
    and "this_tags self =
           (if truthy_tags (opt_tags opts) then Some (tagFilter (opt_tags opts)) else None)"
    and "this_host self = or_else (opt_host opts) (ascii ''logs-01.loggly.com'')"
    and "this_token self = or_else (opt_token opts) []"
    and "this_appName self = (if truthy (opt_appName opts) then opt_appName opts else None)"
    and "url_log (this_urls self) =
           ascii ''https://'' @ this_host self @ ascii ''/inputs/'' @ this_token self"
    and "url_bulk (this_urls self) =
           ascii ''https://'' @ this_host self @ ascii ''/bulk/'' @ this_token self"
  using assms by (auto simp: Loggly_def Let_def ascii_def split: if_splits)

lemma log_Inr:
  "log cs self msg tags = Inr r \<longleftrightarrow>
     (\<exists>msg1. log_truncate msg = Inr msg1 \<and>
        r = log_attach_appName self (log_attach_tags self (log_tags self tags)
              (log_logOptions self (log_body cs self msg1))))"
  by (auto simp: log_def split: sum.splits)

lemma attach_appName_fields [simp]:
  "lo_uri (log_attach_appName self lo) = lo_uri lo"
  "lo_method (log_attach_appName self lo) = lo_method lo"
  "lo_body (log_attach_appName self lo) = lo_body lo"
  "k \<noteq> ''appName'' \<Longrightarrow> lo_headers (log_attach_appName self lo) k = lo_headers lo k"
  by (simp_all add: log_attach_appName_def split: option.splits)

lemma attach_tags_fields [simp]:
  "lo_method (log_attach_tags self ts lo) = lo_method lo"
  "lo_body (log_attach_tags self ts lo) = lo_body lo"
  "k \<noteq> ''X-LOGGLY-TAG'' \<Longrightarrow> lo_headers (log_attach_tags self ts lo) k = lo_headers lo k"
  by (simp_all add: log_attach_tags_def split: option.splits)

lemma log_body_of:
  "log_truncate msg = Inr msg1 \<Longrightarrow>
     map_sum id lo_body (log cs self msg tags) = Inr (log_body cs self msg1)"
  by (simp add: log_def log_logOptions_def)

lemma tagFilter_falsy: "\<not> truthy_tags t \<Longrightarrow> tagFilter t = []"
  by (cases t) (simp_all add: tagFilter_keep_def)

lemma log_tags_effective:
  assumes "Loggly version (Some opts) = Inr self"
  shows "log_tags self tags =
           Some (if truthy_tags tags then tagFilter (opt_tags opts) @ tagFilter tags
                 else tagFilter (opt_tags opts))
         \<or> (log_tags self tags = None \<and>
             (if truthy_tags tags then tagFilter (opt_tags opts) @ tagFilter tags
              else tagFilter (opt_tags opts)) = [])"
  using Loggly_fields(4) [OF assms]
  by (auto simp: log_tags_def tagFilter_falsy)

lemma log_uri:
  assumes "Loggly version (Some opts) = Inr self" and "log cs self msg tags = Inr r"
  shows "lo_uri r =
     (let effective = (if truthy_tags tags then tagFilter (opt_tags opts) @ tagFilter tags
                       else tagFilter (opt_tags opts))
      in ascii ''https://'' @ this_host self @
         (if this_isBulk self then ascii ''/bulk/'' else ascii ''/inputs/'') @ this_token self @
         (if \<not> this_useTagHeader self \<and> effective \<noteq> []
          then ascii ''/tag/'' @ Array_join (ascii '','') effective @ ascii ''/'' else []))"
  using log_tags_effective [OF assms(1), of tags] assms(2)
    Loggly_fields(8,9) [OF assms(1)]
  by (auto simp: log_Inr log_attach_tags_def log_logOptions_def Let_def)

lemma log_tag_header:
  assumes "Loggly version (Some opts) = Inr self" and "log cs self msg tags = Inr r"
  shows "lo_headers r ''X-LOGGLY-TAG'' =
     (let effective = (if truthy_tags tags then tagFilter (opt_tags opts) @ tagFilter tags
                       else tagFilter (opt_tags opts))
      in if this_useTagHeader self \<and> effective \<noteq> []
         then Some (Array_join (ascii '','') effective) else None)"
  using log_tags_effective [OF assms(1), of tags] assms(2)
  by (auto simp: log_Inr log_attach_tags_def log_logOptions_def Let_def)

lemma log_method:
  "log cs self msg tags = Inr r \<Longrightarrow> lo_method r = ascii ''POST''"
  by (auto simp: log_Inr log_logOptions_def)

lemma log_content_type:
  "log cs self msg tags = Inr r \<Longrightarrow>
     lo_headers r ''content-type'' =
       Some (if this_json self then ascii ''application/json'' else ascii ''text/plain'')"
  by (auto simp: log_Inr log_logOptions_def)

lemma log_Str_total: "\<exists>r. log cs self (Str s) tags = Inr r"
  by (simp add: log_def log_truncate_Str)

text \<open>The client that the constructor makes from \<open>example_options\<close>, whatever its
  other options are.\<close>

lemma example_client:
  assumes "opt_subdomain opts = opt_subdomain example_options"
    and "opt_token opts = opt_token example_options"
    and "opt_host opts = opt_host example_options"
  obtains self where "Loggly version (Some opts) = Inr self"
    and "this_host self = ascii ''logs-01.loggly.com''"
    and "this_token self = ascii ''abc123''"
proof -
  from assms have o: "truthy (opt_subdomain opts)" "truthy (opt_token opts)"
    by (simp_all add: example_options_def ascii_def)
  then obtain self where self: "Loggly version (Some opts) = Inr self"
    using Loggly_total by blast
  from Loggly_fields(5,6) [OF self] assms
  have "this_host self = ascii ''logs-01.loggly.com''" "this_token self = ascii ''abc123''"
    by (simp_all add: example_options_def ascii_def)
  with self that show thesis by blast
qed

lemmas tag_eval =
  ascii_Cons ascii_Nil tagFilter_keep_def isSolid_test_def isSolid_first_def isSolid_more_def
  isWord_def isDigit_def



lemma byteLength_take_single_byte:
  assumes "\<forall>c\<in>set s. c < 0x80"
  shows "Buffer_byteLength (take n s) \<le> n"
proof -
  from assms have "\<forall>c\<in>set (take n s). c < 0x80"
    by (meson in_set_takeD)
  then have "Buffer_byteLength (take n s) = length (take n s)"
    by (rule byteLength_single_byte)
  then show ?thesis by simp
qed

lemma log_body_Str:
  "log_body cs self (Str s) =
     (if this_json self then Str (stringify (Obj [(ascii ''message'', Str s)])) else Str s)"
  by (simp add: log_body_def serialize_def)


section \<open>Example messages\<close>


lemma quote_a: "quote (ascii ''a'') = [0x22, 0x61, 0x22]"
  using quote_plain [of "ascii ''a''"] by (simp add: ascii_def)

lemma quote_b: "quote (ascii ''b'') = [0x22, 0x62, 0x22]"
  using quote_plain [of "ascii ''b''"] by (simp add: ascii_def)



lemma quote_as: "quote (replicate n 0x61) = [0x22] @ replicate n 0x61 @ [0x22]"
  by (rule quote_plain) simp

lemma quote_bs: "quote (replicate n 0x62) = [0x22] @ replicate n 0x62 @ [0x22]"
  by (rule quote_plain) simp



lemma small_array_text:
  "JSON_stringify (Arr [Str (ascii ''a''), Str (ascii ''b'')]) =
     Inr [0x5B, 0x22, 0x61, 0x22, 0x2C, 0x22, 0x62, 0x22, 0x5D]"
  by (simp add: quote_a quote_b) (simp add: ascii_def)

lemma small_array_bytes:
  "Buffer_byteLength [0x5B, 0x22, 0x61, 0x22, 0x2C, 0x22, 0x62, 0x22, 0x5D] \<le> EVENT_SIZE"
  by (simp add: utf8_bytes_def isHighSurrogate_def EVENT_SIZE_def)





lemma big_array_text:
  "JSON_stringify (Arr [Str (replicate 600000 0x61), Str (replicate 600000 0x62)]) =
     Inr ([0x5B, 0x22] @ replicate 600000 0x61 @ [0x22, 0x2C, 0x22] @ replicate 600000 0x62 @
          [0x22, 0x5D])"
  by (simp add: quote_as quote_bs) (simp add: ascii_def)

lemma big_array_bytes:
  "Buffer_byteLength ([0x5B, 0x22] @ replicate 600000 0x61 @ [0x22, 0x2C, 0x22] @
     replicate 600000 0x62 @ [0x22, 0x5D]) = 1200007"
proof -
  let ?t = "[0x5B, 0x22] @ replicate 600000 (0x61 :: 16 word) @ [0x22, 0x2C, 0x22] @
     replicate 600000 0x62 @ [0x22, 0x5D]"
  have "Buffer_byteLength ?t = length ?t"
    by (rule byteLength_single_byte) simp
  then show ?thesis by simp
qed

lemma big_array_take:
  "take EVENT_SIZE ([0x5B, 0x22] @ replicate 600000 0x61 @ [0x22, 0x2C, 0x22] @
     replicate 600000 0x62 @ [0x22, 0x5D]) =
   [0x5B, 0x22] @ replicate 600000 0x61 @ [0x22, 0x2C, 0x22] @ replicate 399995 0x62"
  by (simp add: EVENT_SIZE_def)









section \<open>The size of the request body\<close>




section \<open>The continuation\<close>




text \<open>
  C10. When the status code is not 200 or the body is empty or absent (also
  with status code 200), the continuation writes one line to the console and
  does nothing else: the callback is not called, with a result or with an
  error, and nothing is thrown.
\<close>

theorem log_continuation_diagnostic_only:
  assumes "res_statusCode res \<noteq> 200 \<or> \<not> truthy body"
  shows "log_continuation JSON_parse emit callback res body =
     ([ConsoleLog (ascii ''Error Code- '' @ toString_nat (res_statusCode res) @
                   ascii [CHR '' '', CHR 0x22] @ res_statusMessage res @ ascii [CHR 0x22])],
      None)"
  using assms by (auto simp: log_continuation_def toString_nat_200_iff)

theorem log_continuation_diagnostic_only_witness:
  "log_continuation (Inr \<circ> Str) returns (Some returns)
     \<lparr>res_statusCode = 404, res_statusMessage = ascii ''Not Found''\<rparr> (Some (ascii ''ok'')) =
     ([ConsoleLog (ascii ''Error Code- 404 '' @ [0x22] @ ascii ''Not Found'' @ [0x22])], None)
   \<and> log_continuation (Inr \<circ> Str) returns (Some returns)
     \<lparr>res_statusCode = 200, res_statusMessage = ascii ''OK''\<rparr> (Some []) =
     ([ConsoleLog (ascii ''Error Code- 200 '' @ [0x22] @ ascii ''OK'' @ [0x22])], None)"
  using
    log_continuation_diagnostic_only [where res = "\<lparr>res_statusCode = 404, res_statusMessage = ascii ''Not Found''\<rparr>"
      and body = "Some (ascii ''ok'')" and JSON_parse = "Inr \<circ> Str" and emit = returns
      and callback = "Some returns"]
    log_continuation_diagnostic_only [where res = "\<lparr>res_statusCode = 200, res_statusMessage = ascii ''OK''\<rparr>"
      and body = "Some []" and JSON_parse = "Inr \<circ> Str" and emit = returns
      and callback = "Some returns"]
  by (simp add: ascii_def toString_nat.simps [of 404] toString_nat.simps [of 40]
      toString_nat.simps [of 4] toString_nat.simps [of 200] toString_nat.simps [of 20]
      toString_nat.simps [of 2] digit_def)

section \<open>The request\<close>

text \<open>
  C8. For a client made by the constructor from \<open>opts\<close> and a call of
  \<open>log\<close> that produces a request: the effective tags are the filtered
  default tags followed by the filtered tags of the call when the call has
  tags, and the filtered default tags otherwise. When there are effective
  tags they are joined with commas and put into the header \<open>X-LOGGLY-TAG\<close>
  if the client uses the tag header, and otherwise appended to the
  destination URI as \<open>/tag/<tags>/\<close>; when there are none, neither the header
  nor the path segment is there.
\<close>

theorem log_tag_attachment:
  assumes "Loggly version (Some opts) = Inr self" and "log cs self msg tags = Inr r"
  shows "let effective = (if truthy_tags tags then tagFilter (opt_tags opts) @ tagFilter tags
                          else tagFilter (opt_tags opts));
             destination = (if this_isBulk self then url_bulk (this_urls self)
                            else url_log (this_urls self));
             joined = Array_join (ascii '','') effective
         in (effective \<noteq> [] \<and> this_useTagHeader self \<longrightarrow>
               lo_headers r ''X-LOGGLY-TAG'' = Some joined \<and> lo_uri r = destination)
          \<and> (effective \<noteq> [] \<and> \<not> this_useTagHeader self \<longrightarrow>
               lo_uri r = destination @ ascii ''/tag/'' @ joined @ ascii ''/'' \<and>
               lo_headers r ''X-LOGGLY-TAG'' = None)
          \<and> (effective = [] \<longrightarrow>
               lo_headers r ''X-LOGGLY-TAG'' = None \<and> lo_uri r = destination)"
  using log_uri [OF assms] log_tag_header [OF assms] Loggly_fields(8,9) [OF assms(1)]
  by (simp add: Let_def)

theorem log_tag_attachment_witness:
  "(\<exists>self r.
      Loggly (ascii ''1.0.0'') (Some (example_options\<lparr>opt_tags := OneTag (ascii ''base'')\<rparr>))
        = Inr self
      \<and> log stringify self (Str (ascii ''hello'')) (TagArray [ascii ''Foo-1'', ascii ''~bad''])
        = Inr r
      \<and> lo_headers r ''X-LOGGLY-TAG'' = Some (ascii ''base,Foo-1'')
      \<and> lo_uri r = ascii ''https://logs-01.loggly.com/inputs/abc123'')
   \<and> (\<exists>self r.
      Loggly (ascii ''1.0.0'')
        (Some (example_options\<lparr>opt_useTagHeader := Some False,
                                opt_tags := OneTag (ascii ''base'')\<rparr>)) = Inr self
      \<and> log stringify self (Str (ascii ''hello'')) NoTags = Inr r
      \<and> lo_headers r ''X-LOGGLY-TAG'' = None
      \<and> lo_uri r = ascii ''https://logs-01.loggly.com/inputs/abc123/tag/base/'')
   \<and> (\<exists>self r.
      Loggly (ascii ''1.0.0'') (Some example_options) = Inr self
      \<and> log stringify self (Str (ascii ''hello'')) (TagArray [ascii ''~bad'']) = Inr r
      \<and> lo_headers r ''X-LOGGLY-TAG'' = None
      \<and> lo_uri r = ascii ''https://logs-01.loggly.com/inputs/abc123'')"
proof (intro conjI)
  let ?v = "ascii ''1.0.0''" and ?msg = "Str (ascii ''hello'')"
  let ?opts = "example_options\<lparr>opt_tags := OneTag (ascii ''base'')\<rparr>"
  let ?tags = "TagArray [ascii ''Foo-1'', ascii ''~bad'']"
  obtain self where self: "Loggly ?v (Some ?opts) = Inr self"
    and h: "this_host self = ascii ''logs-01.loggly.com''" "this_token self = ascii ''abc123''"
    by (rule example_client [of ?opts ?v]) simp_all
  obtain r where r: "log stringify self ?msg ?tags = Inr r"
    using log_Str_total by blast
  have f: "this_useTagHeader self" "\<not> this_isBulk self"
    using Loggly_fields(2,3) [OF self] by (simp_all add: example_options_def)
  have "lo_headers r ''X-LOGGLY-TAG'' = Some (ascii ''base,Foo-1'')
      \<and> lo_uri r = ascii ''https://logs-01.loggly.com/inputs/abc123''"
    using log_tag_attachment [OF self r] f h Loggly_fields(8) [OF self]
    by (simp add: Let_def example_options_def tag_eval)
  with self r show "\<exists>self r. Loggly ?v (Some ?opts) = Inr self
      \<and> log stringify self ?msg ?tags = Inr r
      \<and> lo_headers r ''X-LOGGLY-TAG'' = Some (ascii ''base,Foo-1'')
      \<and> lo_uri r = ascii ''https://logs-01.loggly.com/inputs/abc123''"
    by blast
next
  let ?v = "ascii ''1.0.0''" and ?msg = "Str (ascii ''hello'')"
  let ?opts = "example_options\<lparr>opt_useTagHeader := Some False,
      opt_tags := OneTag (ascii ''base'')\<rparr>"
  obtain self where self: "Loggly ?v (Some ?opts) = Inr self"
    and h: "this_host self = ascii ''logs-01.loggly.com''" "this_token self = ascii ''abc123''"
    by (rule example_client [of ?opts ?v]) simp_all
  obtain r where r: "log stringify self ?msg NoTags = Inr r"
    using log_Str_total by blast
  have f: "\<not> this_useTagHeader self" "\<not> this_isBulk self"
    using Loggly_fields(2,3) [OF self] by (simp_all add: example_options_def)
  have "lo_headers r ''X-LOGGLY-TAG'' = None
      \<and> lo_uri r = ascii ''https://logs-01.loggly.com/inputs/abc123/tag/base/''"
    using log_tag_attachment [OF self r] f h Loggly_fields(8) [OF self]
    by (simp add: Let_def example_options_def tag_eval)
  with self r show "\<exists>self r. Loggly ?v (Some ?opts) = Inr self
      \<and> log stringify self ?msg NoTags = Inr r
      \<and> lo_headers r ''X-LOGGLY-TAG'' = None
      \<and> lo_uri r = ascii ''https://logs-01.loggly.com/inputs/abc123/tag/base/''"
    by blast
next
  let ?v = "ascii ''1.0.0''" and ?msg = "Str (ascii ''hello'')"
  let ?tags = "TagArray [ascii ''~bad'']"
  obtain self where self: "Loggly ?v (Some example_options) = Inr self"
    and h: "this_host self = ascii ''logs-01.loggly.com''" "this_token self = ascii ''abc123''"
    by (rule example_client [of example_options ?v]) simp_all
  obtain r where r: "log stringify self ?msg ?tags = Inr r"
    using log_Str_total by blast
  have f: "\<not> this_isBulk self"
    using Loggly_fields(2) [OF self] by (simp_all add: example_options_def)
  have "lo_headers r ''X-LOGGLY-TAG'' = None
      \<and> lo_uri r = ascii ''https://logs-01.loggly.com/inputs/abc123''"
    using log_tag_attachment [OF self r] f h Loggly_fields(8) [OF self]
    by (simp add: Let_def example_options_def tag_eval)
  with self r show "\<exists>self r. Loggly ?v (Some example_options) = Inr self
      \<and> log stringify self ?msg ?tags = Inr r
      \<and> lo_headers r ''X-LOGGLY-TAG'' = None
      \<and> lo_uri r = ascii ''https://logs-01.loggly.com/inputs/abc123''"
    by blast
qed

lemma log_logOptions_shape:
  assumes "Loggly version (Some opts) = Inr self"
  shows "lo_method (log_logOptions self body) = ascii ''POST''"
    and "lo_uri (log_logOptions self body) =
           ascii ''https://'' @ this_host self @
           (if this_isBulk self then ascii ''/bulk/'' else ascii ''/inputs/'') @ this_token self"
    and "lo_headers (log_logOptions self body) ''content-type'' =
           Some (if this_json self then ascii ''application/json'' else ascii ''text/plain'')"
  using Loggly_fields(8,9) [OF assms] by (simp_all add: log_logOptions_def)

text \<open>
  C9. For a client made by the constructor, with \<open>host\<close> the host option or
  \<open>logs-01.loggly.com\<close> and \<open>token\<close> the token option: the request that
  \<open>log\<close> assembles in lines 151 to 165 has the method \<open>POST\<close>, the
  destination URI \<open>https://<host>/bulk/<token>\<close> in bulk mode and
  \<open>https://<host>/inputs/<token>\<close> otherwise, and the content type
  \<open>application/json\<close> in json mode and \<open>text/plain\<close> otherwise. In the
  request that every call of \<open>log\<close> hands on, method and content type are
  these, and the URI is this destination URI, with nothing after it when the
  client uses the tag header or there are no effective tags, and with the tag
  segment \<open>/tag/<tags>/\<close> of C8 after it otherwise.
\<close>

theorem log_request_shape:
  assumes "Loggly version (Some opts) = Inr self"
  shows "this_host self = or_else (opt_host opts) (ascii ''logs-01.loggly.com'')
     \<and> Some (this_token self) = opt_token opts
     \<and> this_isBulk self = opt_isBulk opts
     \<and> this_json self = opt_json opts
     \<and> lo_method (log_logOptions self body) = ascii ''POST''
     \<and> lo_uri (log_logOptions self body) =
         ascii ''https://'' @ this_host self @
         (if this_isBulk self then ascii ''/bulk/'' else ascii ''/inputs/'') @ this_token self
     \<and> lo_headers (log_logOptions self body) ''content-type'' =
         Some (if this_json self then ascii ''application/json'' else ascii ''text/plain'')
     \<and> (log cs self msg tags = Inr r \<longrightarrow>
         lo_method r = ascii ''POST''
         \<and> lo_headers r ''content-type'' =
             Some (if this_json self then ascii ''application/json'' else ascii ''text/plain'')
         \<and> lo_uri r =
             (let effective = (if truthy_tags tags then tagFilter (opt_tags opts) @ tagFilter tags
                               else tagFilter (opt_tags opts))
              in ascii ''https://'' @ this_host self @
                 (if this_isBulk self then ascii ''/bulk/'' else ascii ''/inputs/'') @
                 this_token self @
                 (if \<not> this_useTagHeader self \<and> effective \<noteq> []
                  then ascii ''/tag/'' @ Array_join (ascii '','') effective @ ascii ''/''
                  else [])))"
proof -
  have "truthy (opt_token opts)"
    using assms by (simp add: Loggly_def split: if_splits)
  then have t: "Some (this_token self) = opt_token opts"
    using Loggly_fields(6) [OF assms] by (cases "opt_token opts") simp_all
  have "log cs self msg tags = Inr r \<longrightarrow>
         lo_method r = ascii ''POST''
         \<and> lo_headers r ''content-type'' =
             Some (if this_json self then ascii ''application/json'' else ascii ''text/plain'')
         \<and> lo_uri r =
             (let effective = (if truthy_tags tags then tagFilter (opt_tags opts) @ tagFilter tags
                               else tagFilter (opt_tags opts))
              in ascii ''https://'' @ this_host self @
                 (if this_isBulk self then ascii ''/bulk/'' else ascii ''/inputs/'') @
                 this_token self @
                 (if \<not> this_useTagHeader self \<and> effective \<noteq> []
                  then ascii ''/tag/'' @ Array_join (ascii '','') effective @ ascii ''/''
                  else []))"
  proof
    assume r: "log cs self msg tags = Inr r"
    show "lo_method r = ascii ''POST''
         \<and> lo_headers r ''content-type'' =
             Some (if this_json self then ascii ''application/json'' else ascii ''text/plain'')
         \<and> lo_uri r =
             (let effective = (if truthy_tags tags then tagFilter (opt_tags opts) @ tagFilter tags
                               else tagFilter (opt_tags opts))
              in ascii ''https://'' @ this_host self @
                 (if this_isBulk self then ascii ''/bulk/'' else ascii ''/inputs/'') @
                 this_token self @
                 (if \<not> this_useTagHeader self \<and> effective \<noteq> []
                  then ascii ''/tag/'' @ Array_join (ascii '','') effective @ ascii ''/''
                  else []))"
      using log_uri [OF assms r] log_method [OF r] log_content_type [OF r] by simp
  qed
  with t Loggly_fields(1,2,5) [OF assms] log_logOptions_shape [OF assms, of body]
  show ?thesis by simp
qed

theorem log_request_shape_witness:
  "(\<exists>self r.
      Loggly (ascii ''1.0.0'') (Some (example_options\<lparr>opt_json := True, opt_isBulk := True\<rparr>))
        = Inr self
      \<and> lo_method (log_logOptions self (Str (ascii ''hello''))) = ascii ''POST''
      \<and> lo_uri (log_logOptions self (Str (ascii ''hello''))) =
          ascii ''https://logs-01.loggly.com/bulk/abc123''
      \<and> lo_headers (log_logOptions self (Str (ascii ''hello''))) ''content-type'' =
          Some (ascii ''application/json'')
      \<and> log stringify self (Str (ascii ''hello'')) (TagArray [ascii ''Foo-1'']) = Inr r
      \<and> lo_method r = ascii ''POST''
      \<and> lo_headers r ''content-type'' = Some (ascii ''application/json'')
      \<and> lo_uri r = ascii ''https://logs-01.loggly.com/bulk/abc123'')
   \<and> (\<exists>self r.
      Loggly (ascii ''1.0.0'') (Some (example_options\<lparr>opt_useTagHeader := Some False\<rparr>))
        = Inr self
      \<and> lo_method (log_logOptions self (Str (ascii ''hello''))) = ascii ''POST''
      \<and> lo_uri (log_logOptions self (Str (ascii ''hello''))) =
          ascii ''https://logs-01.loggly.com/inputs/abc123''
      \<and> lo_headers (log_logOptions self (Str (ascii ''hello''))) ''content-type'' =
          Some (ascii ''text/plain'')
      \<and> log stringify self (Str (ascii ''hello'')) (TagArray [ascii ''Foo-1'']) = Inr r
      \<and> lo_method r = ascii ''POST''
      \<and> lo_headers r ''content-type'' = Some (ascii ''text/plain'')
      \<and> lo_uri r = ascii ''https://logs-01.loggly.com/inputs/abc123/tag/Foo-1/'')"
proof (intro conjI)
  let ?v = "ascii ''1.0.0''" and ?msg = "Str (ascii ''hello'')"
  let ?opts = "example_options\<lparr>opt_json := True, opt_isBulk := True\<rparr>"
  let ?tags = "TagArray [ascii ''Foo-1'']"
  obtain self where self: "Loggly ?v (Some ?opts) = Inr self"
    and h: "this_host self = ascii ''logs-01.loggly.com''" "this_token self = ascii ''abc123''"
    by (rule example_client [of ?opts ?v]) simp_all
  obtain r where r: "log stringify self ?msg ?tags = Inr r"
    using log_Str_total by blast
  have f: "this_useTagHeader self" "this_isBulk self" "this_json self"
    using Loggly_fields(1,2,3) [OF self] by (simp_all add: example_options_def)
  have "lo_method (log_logOptions self ?msg) = ascii ''POST''
      \<and> lo_uri (log_logOptions self ?msg) = ascii ''https://logs-01.loggly.com/bulk/abc123''
      \<and> lo_headers (log_logOptions self ?msg) ''content-type'' = Some (ascii ''application/json'')
      \<and> lo_method r = ascii ''POST''
      \<and> lo_headers r ''content-type'' = Some (ascii ''application/json'')
      \<and> lo_uri r = ascii ''https://logs-01.loggly.com/bulk/abc123''"
    using log_request_shape [OF self, of ?msg stringify ?msg ?tags r] r f h
    by (simp add: Let_def example_options_def tag_eval)
  with self r show "\<exists>self r. Loggly ?v (Some ?opts) = Inr self
      \<and> lo_method (log_logOptions self ?msg) = ascii ''POST''
      \<and> lo_uri (log_logOptions self ?msg) = ascii ''https://logs-01.loggly.com/bulk/abc123''
      \<and> lo_headers (log_logOptions self ?msg) ''content-type'' = Some (ascii ''application/json'')
      \<and> log stringify self ?msg ?tags = Inr r
      \<and> lo_method r = ascii ''POST''
      \<and> lo_headers r ''content-type'' = Some (ascii ''application/json'')
      \<and> lo_uri r = ascii ''https://logs-01.loggly.com/bulk/abc123''"
    by blast
next
  let ?v = "ascii ''1.0.0''" and ?msg = "Str (ascii ''hello'')"
  let ?opts = "example_options\<lparr>opt_useTagHeader := Some False\<rparr>"
  let ?tags = "TagArray [ascii ''Foo-1'']"
  obtain self where self: "Loggly ?v (Some ?opts) = Inr self"
    and h: "this_host self = ascii ''logs-01.loggly.com''" "this_token self = ascii ''abc123''"
    by (rule example_client [of ?opts ?v]) simp_all
  obtain r where r: "log stringify self ?msg ?tags = Inr r"
    using log_Str_total by blast
  have f: "\<not> this_useTagHeader self" "\<not> this_isBulk self" "\<not> this_json self"
    using Loggly_fields(1,2,3) [OF self] by (simp_all add: example_options_def)
  have "lo_method (log_logOptions self ?msg) = ascii ''POST''
      \<and> lo_uri (log_logOptions self ?msg) = ascii ''https://logs-01.loggly.com/inputs/abc123''
      \<and> lo_headers (log_logOptions self ?msg) ''content-type'' = Some (ascii ''text/plain'')
      \<and> lo_method r = ascii ''POST''
      \<and> lo_headers r ''content-type'' = Some (ascii ''text/plain'')
      \<and> lo_uri r = ascii ''https://logs-01.loggly.com/inputs/abc123/tag/Foo-1/''"
    using log_request_shape [OF self, of ?msg stringify ?msg ?tags r] r f h
    by (simp add: Let_def example_options_def tag_eval)
  with self r show "\<exists>self r. Loggly ?v (Some ?opts) = Inr self
      \<and> lo_method (log_logOptions self ?msg) = ascii ''POST''
      \<and> lo_uri (log_logOptions self ?msg) = ascii ''https://logs-01.loggly.com/inputs/abc123''
      \<and> lo_headers (log_logOptions self ?msg) ''content-type'' = Some (ascii ''text/plain'')
      \<and> log stringify self ?msg ?tags = Inr r
      \<and> lo_method r = ascii ''POST''
      \<and> lo_headers r ''content-type'' = Some (ascii ''text/plain'')
      \<and> lo_uri r = ascii ''https://logs-01.loggly.com/inputs/abc123/tag/Foo-1/''"
    by blast
qed

section \<open>The form of the body\<close>




section \<open>Bulk mode\<close>

text \<open>
  C6. The claim: in bulk mode every element of the body is prepared from one
  input message, serialized and size-limited on its own, and the order is
  kept, whatever is truncated; \<open>["a", "b"]\<close> gives \<open>["a", "b"]\<close>. Line 149
  maps \<open>serialize\<close> over a bulk array, and \<open>["a", "b"]\<close> does give
  \<open>["a", "b"]\<close>. But lines 120 to 123 apply the truncation to the JSON text
  of the whole array. For two messages of 600000 letters \<open>a\<close> and 600000
  letters \<open>b\<close>, each within the limit on its own, the text
  \<open>["a...a","b...b"]\<close> has 1200007 bytes, and the body is one string, the
  first 1000000 characters of that text, instead of the sequence of the two.
\<close>

theorem log_bulk_array_cut_to_one_string:
  "map_sum id lo_body
     (createClient_log (ascii ''1.0.0'') stringify (example_options\<lparr>opt_isBulk := True\<rparr>)
        (Arr [Str (replicate 600000 0x61), Str (replicate 600000 0x62)]) NoTags) =
   Inr (Str ([0x5B, 0x22] @ replicate 600000 0x61 @ [0x22, 0x2C, 0x22] @ replicate 399995 0x62))
   \<and> \<not> Array_isArray
         (Str ([0x5B, 0x22] @ replicate 600000 0x61 @ [0x22, 0x2C, 0x22] @ replicate 399995 0x62))
   \<and> truncateLargeMessage (replicate 600000 0x61) =
       \<lparr>message = replicate 600000 0x61, isMessageTruncated = False\<rparr>
   \<and> truncateLargeMessage (replicate 600000 0x62) =
       \<lparr>message = replicate 600000 0x62, isMessageTruncated = False\<rparr>
   \<and> map_sum id lo_body
     (createClient_log (ascii ''1.0.0'') stringify (example_options\<lparr>opt_isBulk := True\<rparr>)
        (Arr [Str (ascii ''a''), Str (ascii ''b'')]) NoTags) =
   Inr (Arr [Str (ascii ''a''), Str (ascii ''b'')])"
proof -
  let ?opts = "example_options\<lparr>opt_isBulk := True\<rparr>"
  let ?v = "ascii ''1.0.0''"
  let ?msg = "Arr [Str (replicate 600000 0x61), Str (replicate 600000 0x62)]"
  let ?t = "[0x5B, 0x22] @ replicate 600000 (0x61 :: 16 word) @ [0x22, 0x2C, 0x22] @
     replicate 600000 0x62 @ [0x22, 0x5D]"
  let ?ab = "Arr [Str (ascii ''a''), Str (ascii ''b'')]"
  obtain self where self: "Loggly ?v (Some ?opts) = Inr self"
    by (rule example_client [of ?opts ?v]) simp_all
  have j: "\<not> this_json self" "this_isBulk self"
    using Loggly_fields(1,2) [OF self] by (simp_all add: example_options_def)
  have "EVENT_SIZE < Buffer_byteLength ?t"
    unfolding big_array_bytes EVENT_SIZE_def by simp
  then have "log_truncate ?msg = Inr (Str (take EVENT_SIZE ?t))"
    using log_truncate_object_over [OF _ big_array_text] by simp
  then have "map_sum id lo_body (log stringify self ?msg NoTags) =
      Inr (log_body stringify self (Str (take EVENT_SIZE ?t)))"
    by (rule log_body_of)
  then have 1: "map_sum id lo_body (createClient_log ?v stringify ?opts ?msg NoTags) =
      Inr (Str ([0x5B, 0x22] @ replicate 600000 0x61 @ [0x22, 0x2C, 0x22] @
                replicate 399995 0x62))"
    using self j unfolding big_array_take
    by (simp add: createClient_log_def createClient_def log_body_Str)
  have a: "Buffer_byteLength (replicate 600000 0x61) = 600000"
    using byteLength_single_byte [of "replicate 600000 0x61"] by simp
  have b: "Buffer_byteLength (replicate 600000 0x62) = 600000"
    using byteLength_single_byte [of "replicate 600000 0x62"] by simp
  have 2: "truncateLargeMessage (replicate 600000 0x61) =
      \<lparr>message = replicate 600000 0x61, isMessageTruncated = False\<rparr>"
    unfolding truncateLargeMessage_def Let_def a EVENT_SIZE_def by simp
  have 3: "truncateLargeMessage (replicate 600000 0x62) =
      \<lparr>message = replicate 600000 0x62, isMessageTruncated = False\<rparr>"
    unfolding truncateLargeMessage_def Let_def b EVENT_SIZE_def by simp
  have "log_truncate ?ab = Inr ?ab"
    using log_truncate_object_within [OF _ small_array_text small_array_bytes] by simp
  then have "map_sum id lo_body (log stringify self ?ab NoTags) =
      Inr (log_body stringify self ?ab)"
    by (rule log_body_of)
  then have 4: "map_sum id lo_body (createClient_log ?v stringify ?opts ?ab NoTags) = Inr ?ab"
    using self j
    by (simp add: createClient_log_def createClient_def log_body_def serialize_def)
  from 1 2 3 4 show ?thesis by simp
qed

end
